theory Spec2Isabelle
  imports Main
begin

section \<open>C strings and the library calls of input.c\<close>

text \<open>
  A C string is modelled by its content: the bytes before the terminating NUL, as a
  \<open>string\<close> (a list of 8-bit characters). A byte position is an index into that list; the
  position \<open>length s\<close> is the terminator. Pointers into a string are byte positions.
\<close>

definition NUL :: char where
  "NUL = CHR 0x00"

text \<open>What remains of a byte sequence when it is read as a C string: the bytes up to the first NUL.\<close>

definition c_str :: "string \<Rightarrow> string" where
  "c_str bs = takeWhile (\<lambda>c. c \<noteq> NUL) bs"

text \<open>\<open>strchr (s, c)\<close>: the position of the first byte \<open>c\<close>, or NULL.\<close>

fun strchr :: "string \<Rightarrow> char \<Rightarrow> nat option" where
  "strchr [] c = None"
| "strchr (x # xs) c = (if x = c then Some 0 else map_option Suc (strchr xs c))"







section \<open>Stripping the password from a partial URL\<close>





section \<open>The input widget\<close>

text \<open>
  Modelled from the spec: the dialog states \<open>dlg_state_t\<close> (lib/widget/dialog.h) and the
  callback results \<open>cb_ret_t\<close> (lib/widget/widget-common.h) are declared in headers that
  are not among the sources. The widget's owner is a dialog in one of these states, or
  NULL; a handler reports whether it handled the message.
\<close>

datatype dlg_state_t = DLG_CONSTRUCT | DLG_ACTIVE | DLG_SUSPENDED | DLG_CLOSED

datatype cb_ret_t = MSG_NOT_HANDLED | MSG_HANDLED

text \<open>
  Modelled from the spec: the structure \<open>WInput\<close> is declared in lib/widget/input.h, which
  is not among the sources. The record has the fields input.c reads and writes, which are
  the spec's data model (buffer, point, mark, highlight, assembler, history, viewport),
  with the fields of the embedded \<open>Widget\<close> that input.c reads: \<open>cols\<close> and the owner's
  state. The fields of the nested \<open>history\<close> structure carry the prefix \<open>history_\<close>.

  \<open>history_list\<close> is the \<open>GList\<close> seen from the pointer \<open>in->history.list\<close>: its head is
  \<open>list->data\<close>, the newest entry, and its tail is reached by \<open>g_list_previous\<close>; the
  empty list is NULL. An entry's data is a string or NULL. \<open>history_current\<close> is a
  pointer into that list: the number of \<open>g_list_previous\<close> steps from \<open>list\<close>, or NULL.

  \<open>charbuf\<close> is the array of \<open>MB_LEN_MAX\<close> bytes; \<open>buffer\<close> is the content of the
  editing buffer (a C string) and \<open>current_max_size\<close> the number of bytes allocated.
\<close>

record WInput =
  cols :: int
  owner :: "dlg_state_t option"
  point :: int
  mark :: int
  highlight :: bool
  term_first_shown :: int
  current_max_size :: nat
  first :: bool
  disable_update :: int
  is_password :: bool
  buffer :: string
  need_push :: bool
  strip_password :: bool
  completions :: "string list option"
  charbuf :: string
  charpoint :: nat
  history_name :: "string option"
  history_list :: "string option list"
  history_current :: "nat option"
  history_changed :: bool

section \<open>The history\<close>





section \<open>The character encoding\<close>

text \<open>
  Modelled from the spec: input.c reaches the text through the \<open>str_*\<close> functions of
  lib/strutil.c, which is not among the sources (the spec's character classifier and
  decoder, an external collaborator); each of them calls the function of the same name
  of the current character encoding, a \<open>struct str_class\<close> of function pointers. The
  encoding is taken as a parameter: the record \<open>str_class\<close> with the six functions
  input.c needs.

  A \<open>const char *\<close> argument is the C string found at that address. \<open>cnext_noncomb_char\<close>
  gets the text at \<open>act\<close> and returns the number of characters stepped over;
  \<open>cprev_noncomb_char\<close> gets the whole text and the byte position of \<open>act\<close>. Both also
  move \<open>act\<close>, which no caller in input.c reads afterwards.
\<close>

record str_class =
  offset_to_pos :: "string \<Rightarrow> int \<Rightarrow> int"
  length_chars :: "string \<Rightarrow> int"
  is_valid_char :: "string \<Rightarrow> nat \<Rightarrow> int"
  cnext_noncomb_char :: "string \<Rightarrow> int"
  cprev_noncomb_char :: "string \<Rightarrow> nat \<Rightarrow> int"
  term_width2 :: "string \<Rightarrow> int \<Rightarrow> int"

definition str_offset_to_pos :: "str_class \<Rightarrow> string \<Rightarrow> int \<Rightarrow> int" where
  "str_offset_to_pos cls text n = offset_to_pos cls text n"

definition str_length :: "str_class \<Rightarrow> string \<Rightarrow> int" where
  "str_length cls text = length_chars cls text"

definition str_is_valid_char :: "str_class \<Rightarrow> string \<Rightarrow> nat \<Rightarrow> int" where
  "str_is_valid_char cls ch n = is_valid_char cls ch n"

definition str_cnext_noncomb_char :: "str_class \<Rightarrow> string \<Rightarrow> int" where
  "str_cnext_noncomb_char cls text = cnext_noncomb_char cls text"

definition str_cprev_noncomb_char :: "str_class \<Rightarrow> string \<Rightarrow> nat \<Rightarrow> int" where
  "str_cprev_noncomb_char cls text act = cprev_noncomb_char cls text act"

definition str_term_width2 :: "str_class \<Rightarrow> string \<Rightarrow> int \<Rightarrow> int" where
  "str_term_width2 cls text n = term_width2 cls text n"

text \<open>
  Modelled from the spec: the encodings themselves (lib/strutil/strutil8bit.c and
  lib/strutil/strutilutf8.c) are not among the sources. The spec describes them by what
  they decide: how many bytes one character takes, whether the bytes assembled so far
  are a complete character, an incomplete one or a malformed one, and how wide a text
  is on the screen.

  \<open>str_8bit\<close> is a single-byte encoding: every byte is one character of width one, so
  a character offset is a byte position and every byte is a complete character. A
  negative count, converted to \<open>size_t\<close>, exceeds every length.
\<close>

definition str_8bit :: str_class where
  "str_8bit =
     \<lparr>offset_to_pos = (\<lambda>text n. n),
      length_chars = (\<lambda>text. int (length text)),
      is_valid_char = (\<lambda>ch n. 1),
      cnext_noncomb_char = (\<lambda>text. if text = [] then 0 else 1),
      cprev_noncomb_char = (\<lambda>text act. if act = 0 then 0 else 1),
      term_width2 = (\<lambda>text n. if n < 0 then int (length text) else min n (int (length text)))\<rparr>"

text \<open>
  Modelled from the spec: \<open>str_utf8\<close> is the UTF-8 encoding, for text whose characters
  have width one and are not combining marks (the character tables of GLib are not
  modelled). A byte below 0x80 is a character; a lead byte 0xC2-0xDF, 0xE0-0xEF or
  0xF0-0xF4 announces one, two or three continuation bytes 0x80-0xBF. The assembler's
  answer is 1 for a complete character, -2 for a sequence that is well-formed so far but
  lacks bytes, and -1 for a malformed one.
\<close>

definition utf8_cont :: "char \<Rightarrow> bool" where
  "utf8_cont c = (128 \<le> (of_char c :: nat) \<and> (of_char c :: nat) < 192)"

definition utf8_skip :: "char \<Rightarrow> nat" where
  "utf8_skip c =
     (let n = (of_char c :: nat)
      in if n < 192 then 1 else if n < 224 then 2 else if n < 240 then 3 else if n < 248 then 4
         else if n < 252 then 5 else if n < 254 then 6 else 1)"

definition utf8_is_valid_char :: "string \<Rightarrow> nat \<Rightarrow> int" where
  "utf8_is_valid_char ch sz =
     (case take sz ch of
        [] \<Rightarrow> -2
      | b # rest \<Rightarrow>
          (let n = (of_char b :: nat)
           in if n < 128 then 1
              else if n < 194 \<or> 245 \<le> n then -1
              else if \<not> list_all utf8_cont (take (utf8_skip b - 1) rest) then -1
              else if length rest < utf8_skip b - 1 then -2
              else 1))"

text \<open>
  The byte position of the \<open>n\<close>-th character: \<open>n\<close> steps of the lead byte's length each;
  a step from the terminator leaves the string.
\<close>

fun utf8_pos :: "string \<Rightarrow> nat \<Rightarrow> nat" where
  "utf8_pos s 0 = 0"
| "utf8_pos [] (Suc n) = Suc n"
| "utf8_pos (c # cs) (Suc n) = utf8_skip c + utf8_pos (drop (utf8_skip c) (c # cs)) n"

definition str_utf8 :: str_class where
  "str_utf8 =
     \<lparr>offset_to_pos = (\<lambda>text n. if n < 0 then -1 else int (utf8_pos text (nat n))),
      length_chars = (\<lambda>text. int (length (filter (\<lambda>c. \<not> utf8_cont c) text))),
      is_valid_char = utf8_is_valid_char,
      cnext_noncomb_char = (\<lambda>text. if text = [] then 0 else 1),
      cprev_noncomb_char = (\<lambda>text act. if act = 0 then 0 else 1),
      term_width2 =
        (\<lambda>text n. if n < 0 then int (length (filter (\<lambda>c. \<not> utf8_cont c) text))
                  else min n (int (length (filter (\<lambda>c. \<not> utf8_cont c) text))))\<rparr>"

section \<open>Marks and regions\<close>

text \<open>\<open>input_set_markers\<close> and \<open>input_mark_cmd\<close> (input.c, lines 126-147).\<close>

definition input_set_markers :: "WInput \<Rightarrow> int \<Rightarrow> WInput" where
  "input_set_markers inp m1 = inp\<lparr>mark := m1\<rparr>"

definition input_mark_cmd :: "WInput \<Rightarrow> bool \<Rightarrow> WInput" where
  "input_mark_cmd inp m =
     (if \<not> m then input_set_markers (inp\<lparr>highlight := False\<rparr>) 0
      else input_set_markers (inp\<lparr>highlight := True\<rparr>) (point inp))"

text \<open>
  \<open>input_eval_marks\<close> (lines 151-165): the return value and the two output parameters.
\<close>

definition input_eval_marks :: "WInput \<Rightarrow> bool \<times> int \<times> int" where
  "input_eval_marks inp =
     (if highlight inp
      then (True, min (mark inp) (point inp), max (mark inp) (point inp))
      else (False, 0, 0))"

text \<open>
  \<open>delete_region\<close> (lines 169-184). \<open>memmove\<close> moves the tail of the string, from the byte
  position of \<open>last\<close> up to and including the terminator, to the byte position of
  \<open>first\<close>. The model describes the call when the two byte positions lie in this order
  inside the string; otherwise the C code reads or writes memory that is not the
  string's content, and the result is \<open>None\<close>.
\<close>

definition delete_region :: "str_class \<Rightarrow> WInput \<Rightarrow> int \<Rightarrow> int \<Rightarrow> WInput option" where
  "delete_region cls inp x_first x_last =
     (let first0 = min x_first x_last;
          last0 = max x_first x_last;
          inp1 = input_mark_cmd inp False;
          inp2 = inp1\<lparr>point := first0\<rparr>;
          last_pos = str_offset_to_pos cls (buffer inp2) last0;
          first_pos = str_offset_to_pos cls (buffer inp2) first0
      in if 0 \<le> first_pos \<and> first_pos \<le> last_pos \<and> last_pos \<le> int (length (buffer inp2))
         then Some (inp2\<lparr>buffer := take (nat first_pos) (buffer inp2) @ drop (nat last_pos) (buffer inp2),
                          charpoint := 0,
                          need_push := True\<rparr>)
         else None)"

text \<open>\<open>input_delete_selection\<close> (lines 526-532).\<close>

definition input_delete_selection :: "str_class \<Rightarrow> WInput \<Rightarrow> WInput option" where
  "input_delete_selection cls inp =
     (case input_eval_marks inp of
        (True, m1, m2) \<Rightarrow> delete_region cls inp m1 m2
      | (False, m1, m2) \<Rightarrow> Some inp)"

section \<open>Deleting a character\<close>

text \<open>
  The loop of \<open>move_buffer_backward\<close> (lines 281-282) on the array \<open>a\<close>, the buffer's
  content with its terminator: while the byte at \<open>i + len - 1\<close> is not NUL, the byte at
  \<open>i + len\<close> is copied to \<open>i\<close>. An access outside the content and its terminator is
  \<open>None\<close>.
\<close>

function mbb_loop :: "string \<Rightarrow> int \<Rightarrow> int \<Rightarrow> string option" where
  "mbb_loop a len i =
     (if \<not> (0 \<le> i + len - 1 \<and> i + len - 1 < int (length a)) then None
      else if a ! nat (i + len - 1) = NUL then Some a
      else if \<not> (0 \<le> i \<and> i < int (length a) \<and> 0 \<le> i + len \<and> i + len < int (length a)) then None
      else mbb_loop (a[nat i := a ! nat (i + len)]) len (i + 1))"
  by pat_completeness auto
termination
  by (relation "measure (\<lambda>(a, len, i). length a - nat (i + len))") auto

declare mbb_loop.simps [simp del]

text \<open>
  The array the loop has made of \<open>b\<close> when it has reached the index \<open>i\<close>, having started at
  \<open>pos\<close>: the bytes before \<open>pos\<close>, then the bytes of \<open>b\<close> from \<open>pos + len\<close> on as far as they
  have been copied, then the bytes of \<open>b\<close> from \<open>i\<close> on, not yet touched.
\<close>

definition shifted :: "string \<Rightarrow> nat \<Rightarrow> nat \<Rightarrow> nat \<Rightarrow> string" where
  "shifted b pos len i = take pos b @ take (i - pos) (drop (pos + len) b) @ drop i b"

text \<open>\<open>move_buffer_backward\<close> (lines 268-283).\<close>

definition move_buffer_backward :: "str_class \<Rightarrow> WInput \<Rightarrow> int \<Rightarrow> int \<Rightarrow> WInput option" where
  "move_buffer_backward cls inp start x_end =
     (let str_len = str_length cls (buffer inp)
      in if start \<ge> str_len \<or> x_end > str_len + 1 then Some inp
         else
           (let pos = str_offset_to_pos cls (buffer inp) start;
                len = str_offset_to_pos cls (buffer inp) x_end - pos
            in case mbb_loop (buffer inp @ [NUL]) len pos of
                 None \<Rightarrow> None
               | Some a \<Rightarrow> Some (inp\<lparr>buffer := c_str a\<rparr>)))"

text \<open>
  \<open>delete_char\<close> (lines 352-364). \<open>act\<close> points into the buffer at the byte position of
  \<open>point\<close>; \<open>str_cnext_noncomb_char\<close> reads the text there, so the position has to lie
  inside the string.
\<close>

definition delete_char :: "str_class \<Rightarrow> WInput \<Rightarrow> WInput option" where
  "delete_char cls inp =
     (let act = str_offset_to_pos cls (buffer inp) (point inp)
      in if \<not> (0 \<le> act \<and> act \<le> int (length (buffer inp))) then None
         else
           (let x_end = point inp + str_cnext_noncomb_char cls (drop (nat act) (buffer inp))
            in case move_buffer_backward cls inp (point inp) x_end of
                 None \<Rightarrow> None
               | Some inp1 \<Rightarrow> Some (inp1\<lparr>charpoint := 0, need_push := True\<rparr>)))"

text \<open>\<open>port_region_marked_for_delete\<close> (lines 368-375).\<close>

definition port_region_marked_for_delete :: "WInput \<Rightarrow> WInput" where
  "port_region_marked_for_delete inp =
     inp\<lparr>buffer := [], point := 0, first := False, charpoint := 0\<rparr>"

text \<open>\<open>mc_winput_cmd_delete\<close> (lines 785-803).\<close>

definition mc_winput_cmd_delete :: "str_class \<Rightarrow> WInput \<Rightarrow> WInput option" where
  "mc_winput_cmd_delete cls inp =
     (if first inp then Some (port_region_marked_for_delete inp)
      else if highlight inp then input_delete_selection cls inp
      else delete_char cls inp)"

text \<open>
  \<open>mc_winput_cmd_backward_char\<close> (lines 634-652). \<open>act\<close> is computed in any case, and
  read only when \<open>point\<close> is positive.
\<close>

definition mc_winput_cmd_backward_char :: "str_class \<Rightarrow> WInput \<Rightarrow> WInput option" where
  "mc_winput_cmd_backward_char cls inp =
     (let act = str_offset_to_pos cls (buffer inp) (point inp)
      in if point inp > 0
         then (if 0 \<le> act \<and> act \<le> int (length (buffer inp))
               then Some (inp\<lparr>point := point inp - str_cprev_noncomb_char cls (buffer inp) (nat act),
                              charpoint := 0\<rparr>)
               else None)
         else Some (inp\<lparr>charpoint := 0\<rparr>))"

section \<open>Inserting a character\<close>

text \<open>
  \<open>MB_LEN_MAX\<close> of limits.h (16 with the GNU C library): the size of \<open>charbuf\<close>.
\<close>

definition MB_LEN_MAX :: nat where
  "MB_LEN_MAX = 16"

text \<open>
  The length \<open>insert_char\<close> asks for when it expands the buffer:
  \<open>current_max_size + cols + charpoint\<close>, computed in \<open>size_t\<close> (64 bits), so that a
  negative \<open>cols\<close> wraps around.
\<close>

definition new_length :: "WInput \<Rightarrow> nat" where
  "new_length inp = nat ((int (current_max_size inp) + cols inp + int (charpoint inp)) mod 2 ^ 64)"

text \<open>
  \<open>insert_char\<close> (lines 287-348). \<open>alloc n\<close> tells whether \<open>g_try_renew\<close> succeeds when
  asked for \<open>n\<close> bytes: the allocator is the environment's. A block too short for the
  string and its terminator would cut the string: \<open>None\<close>. The byte stored in \<open>charbuf\<close>
  is \<open>c_code\<close> converted to \<open>char\<close>. The loop and \<open>memcpy\<close> open a gap of \<open>charpoint\<close>
  bytes at the byte position of \<open>point\<close> and fill it from \<open>charbuf\<close>; the buffer is a C
  string, so it ends at the first NUL.
\<close>

definition insert_char :: "str_class \<Rightarrow> (nat \<Rightarrow> bool) \<Rightarrow> WInput \<Rightarrow> int \<Rightarrow> (cb_ret_t \<times> WInput) option" where
  "insert_char cls alloc inp c_code =
     (case (if highlight inp
            then (case input_eval_marks inp of
                    (True, m1, m2) \<Rightarrow> delete_region cls inp m1 m2
                  | (False, m1, m2) \<Rightarrow> Some inp)
            else Some inp) of
        None \<Rightarrow> None
      | Some inp1 \<Rightarrow>
          if c_code = -1 then Some (MSG_NOT_HANDLED, inp1)
          else if charpoint inp1 \<ge> MB_LEN_MAX then Some (MSG_HANDLED, inp1)
          else
            (let inp2 = inp1\<lparr>charbuf := (charbuf inp1)[charpoint inp1 := char_of c_code],
                             charpoint := charpoint inp1 + 1\<rparr>;
                 res = str_is_valid_char cls (charbuf inp2) (charpoint inp2)
             in if res < 0
                then Some (MSG_HANDLED, if res \<noteq> -2 then inp2\<lparr>charpoint := 0\<rparr> else inp2)
                else
                  (let inp3 = inp2\<lparr>need_push := True\<rparr>
                   in case (if length (buffer inp3) + 1 + charpoint inp3 \<ge> current_max_size inp3
                            then (if alloc (new_length inp3)
                                  then (if length (buffer inp3) < new_length inp3
                                        then Some (inp3\<lparr>current_max_size := new_length inp3\<rparr>)
                                        else None)
                                  else Some inp3)
                            else Some inp3) of
                        None \<Rightarrow> None
                      | Some inp4 \<Rightarrow>
                          if length (buffer inp4) + charpoint inp4 < current_max_size inp4
                          then
                            (let ins_point = str_offset_to_pos cls (buffer inp4) (point inp4)
                             in if 0 \<le> ins_point \<and> ins_point \<le> int (length (buffer inp4))
                                then Some (MSG_HANDLED,
                                       inp4\<lparr>buffer := c_str (take (nat ins_point) (buffer inp4)
                                                           @ take (charpoint inp4) (charbuf inp4)
                                                           @ drop (nat ins_point) (buffer inp4)),
                                            point := point inp4 + 1,
                                            charpoint := 0\<rparr>)
                                else None)
                          else Some (MSG_HANDLED, inp4\<lparr>charpoint := 0\<rparr>))))"

section \<open>The kill ring and the clipboard\<close>

text \<open>
  The state outside the widget: the file-scope variable \<open>kill_buffer\<close> (a string or
  NULL), shared by all input widgets, and the events raised, in order: group, name and
  the text passed as data.

  Modelled from the spec: \<open>mc_event_raise\<close> and the event groups are declared in
  lib/event.h, which is not among the sources. The spec's clipboard/file bridge is an
  external collaborator; its handlers live outside input.c and cannot reach
  \<open>kill_buffer\<close>, so raising an event is recorded and changes nothing else here.
\<close>

datatype event_group_t = MCEVENT_GROUP_CORE | MCEVENT_GROUP_FILEMANAGER

record globals =
  kill_buffer :: "string option"
  raised :: "(event_group_t \<times> string \<times> string option) list"

definition mc_event_raise :: "globals \<Rightarrow> event_group_t \<Rightarrow> string \<Rightarrow> string option \<Rightarrow> globals" where
  "mc_event_raise g grp name data = g\<lparr>raised := raised g @ [(grp, name, data)]\<rparr>"

text \<open>
  The file-level clipboard action: the two events the copy command raises when it
  copies no text, with \<open>kill_buffer\<close> as it was.
\<close>

definition file_level_copy :: "globals \<Rightarrow> globals" where
  "file_level_copy g =
     g\<lparr>raised := raised g @ [(MCEVENT_GROUP_FILEMANAGER, ''panel_save_current_file_to_clip_file'', None),
                               (MCEVENT_GROUP_CORE, ''clipboard_file_to_ext_clip'', None)]\<rparr>"

text \<open>
  \<open>mc_winput_cmd_clipboard_copy\<close> (lines 943-980). \<open>g_strndup\<close> copies at most
  \<open>last - first\<close> bytes of the text at the byte position \<open>first\<close>; that position has to
  lie inside the string and the count must not be negative.
\<close>

definition mc_winput_cmd_clipboard_copy :: "str_class \<Rightarrow> globals \<Rightarrow> WInput \<Rightarrow> (WInput \<times> globals) option" where
  "mc_winput_cmd_clipboard_copy cls g inp =
     (let first0 = min (mark inp) (point inp);
          last0 = max (mark inp) (point inp)
      in if last0 = first0
         then
           (let g1 = mc_event_raise g MCEVENT_GROUP_FILEMANAGER ''panel_save_current_file_to_clip_file'' None;
                g2 = mc_event_raise g1 MCEVENT_GROUP_CORE ''clipboard_file_to_ext_clip'' None
            in Some (inp, g2))
         else
           (let first_pos = str_offset_to_pos cls (buffer inp) first0;
                last_pos = str_offset_to_pos cls (buffer inp) last0
            in if 0 \<le> first_pos \<and> first_pos \<le> int (length (buffer inp)) \<and> first_pos \<le> last_pos
               then
                 (let kb = take (nat (last_pos - first_pos)) (drop (nat first_pos) (buffer inp));
                      g1 = g\<lparr>kill_buffer := Some kb\<rparr>;
                      g2 = mc_event_raise g1 MCEVENT_GROUP_CORE ''clipboard_text_to_file'' (kill_buffer g1);
                      g3 = mc_event_raise g2 MCEVENT_GROUP_CORE ''clipboard_file_to_ext_clip'' None
                  in Some (inp, g3))
               else None))"

text \<open>\<open>mc_winput_cmd_remove\<close> (lines 878-891) and \<open>mc_winput_cmd_clipboard_cut\<close> (lines 985-997).\<close>

definition mc_winput_cmd_remove :: "str_class \<Rightarrow> WInput \<Rightarrow> WInput option" where
  "mc_winput_cmd_remove cls inp = delete_region cls inp (point inp) (mark inp)"

definition mc_winput_cmd_clipboard_cut :: "str_class \<Rightarrow> globals \<Rightarrow> WInput \<Rightarrow> (WInput \<times> globals) option" where
  "mc_winput_cmd_clipboard_cut cls g inp =
     (case mc_winput_cmd_clipboard_copy cls g inp of
        None \<Rightarrow> None
      | Some (inp1, g1) \<Rightarrow>
          (case mc_winput_cmd_remove cls inp1 of
             None \<Rightarrow> None
           | Some inp2 \<Rightarrow> Some (inp2, g1)))"

text \<open>
  \<open>mc_winput_cmd_yank\<close> (lines 1002-1023). Each byte of the kill buffer goes through
  \<open>insert_char\<close> as an \<open>int\<close>; \<open>char\<close> is a signed type on the x86 targets, so a byte from
  0x80 on arrives as a negative number.
\<close>

definition char_to_int :: "char \<Rightarrow> int" where
  "char_to_int c = (if (of_char c :: int) \<ge> 128 then of_char c - 256 else of_char c)"

fun yank_loop :: "str_class \<Rightarrow> (nat \<Rightarrow> bool) \<Rightarrow> WInput \<Rightarrow> string \<Rightarrow> WInput option" where
  "yank_loop cls alloc inp [] = Some inp"
| "yank_loop cls alloc inp (p # ps) =
     (case insert_char cls alloc inp (char_to_int p) of
        None \<Rightarrow> None
      | Some (v, inp1) \<Rightarrow> yank_loop cls alloc inp1 ps)"

definition mc_winput_cmd_yank :: "str_class \<Rightarrow> (nat \<Rightarrow> bool) \<Rightarrow> globals \<Rightarrow> WInput \<Rightarrow> WInput option" where
  "mc_winput_cmd_yank cls alloc g inp =
     (case kill_buffer g of
        None \<Rightarrow> Some inp
      | Some kb \<Rightarrow>
          (case yank_loop cls alloc (inp\<lparr>charpoint := 0\<rparr>) kb of
             None \<Rightarrow> None
           | Some inp1 \<Rightarrow> Some (inp1\<lparr>charpoint := 0\<rparr>)))"

text \<open>
  \<open>input_destroy\<close> (lines 433-456). A NULL widget ends the process: \<open>None\<close>. Otherwise
  the widget's completions, history and buffer are freed, the widget is gone, and what
  remains is the state outside it: \<open>kill_buffer\<close> is freed and set to NULL.
\<close>

definition input_destroy :: "globals \<Rightarrow> WInput option \<Rightarrow> globals option" where
  "input_destroy g inp =
     (case inp of
        None \<Rightarrow> None
      | Some w \<Rightarrow> Some (g\<lparr>kill_buffer := None\<rparr>))"

section \<open>Redrawing\<close>

definition HISTORY_BUTTON_WIDTH :: int where
  "HISTORY_BUTTON_WIDTH = 3"

definition should_show_history_button :: "WInput \<Rightarrow> bool" where
  "should_show_history_button inp =
     (history_list inp \<noteq> [] \<and> cols inp > HISTORY_BUTTON_WIDTH * 2 + 1 \<and> owner inp \<noteq> None)"

text \<open>The division of C on \<open>int\<close>: the quotient is truncated towards zero.\<close>

definition c_div :: "int \<Rightarrow> int \<Rightarrow> int" where
  "c_div a b = (if (a < 0) = (b < 0) then \<bar>a\<bar> div \<bar>b\<bar> else - (\<bar>a\<bar> div \<bar>b\<bar>))"

text \<open>
  \<open>input_update\<close> (lines 1584-1684), as far as it changes the widget: the mark is
  adjusted, the first shown column is moved when the cursor's column \<open>pw\<close> is outside
  the shown columns, and \<open>first\<close> is cleared on demand. What it prints on the terminal
  is not part of the widget's state and is left out.
\<close>

definition input_update :: "str_class \<Rightarrow> WInput \<Rightarrow> bool \<Rightarrow> WInput" where
  "input_update cls inp clear_first =
     (if disable_update inp \<noteq> 0 then inp
      else if owner inp \<noteq> Some DLG_ACTIVE then inp
      else
        (let has_history = (if should_show_history_button inp then HISTORY_BUTTON_WIDTH else 0);
             buf_len = str_length cls (buffer inp);
             inp1 = inp\<lparr>mark := min (mark inp) buf_len\<rparr>;
             pw = str_term_width2 cls (buffer inp1) (point inp1);
             inp2 =
               (if pw < term_first_shown inp1 \<or> pw \<ge> term_first_shown inp1 + cols inp1 - has_history
                then
                  (let inp3 = inp1\<lparr>term_first_shown := pw - c_div (cols inp1) 3\<rparr>
                   in if term_first_shown inp3 < 0 then inp3\<lparr>term_first_shown := 0\<rparr> else inp3)
                else inp1)
         in if clear_first then inp2\<lparr>first := False\<rparr> else inp2))"

section \<open>A sample widget\<close>

text \<open>
  The widget of the examples: ten columns wide, in an active dialog, holding the text
  \<open>abcdef\<close> in a buffer of eleven bytes, with the mark at 2, the cursor at 5 and the
  selection between them shown.
\<close>

definition example_input :: WInput where
  "example_input =
     \<lparr>cols = 10, owner = Some DLG_ACTIVE, point = 5, mark = 2, highlight = True,
      term_first_shown = 0, current_max_size = 11, first = False, disable_update = 0,
      is_password = False, buffer = ''abcdef'', need_push = False, strip_password = True,
      completions = None, charbuf = replicate 16 NUL, charpoint = 0,
      history_name = Some ''cmdline'', history_list = [], history_current = None,
      history_changed = False\<rparr>"

lemmas str_simps = str_offset_to_pos_def str_length_def str_is_valid_char_def
  str_cnext_noncomb_char_def str_cprev_noncomb_char_def str_term_width2_def

section \<open>Deleting a region\<close>

lemma delete_region_eq:
  assumes "0 \<le> str_offset_to_pos cls (buffer inp) (min a b)"
    and "str_offset_to_pos cls (buffer inp) (min a b) \<le> str_offset_to_pos cls (buffer inp) (max a b)"
    and "str_offset_to_pos cls (buffer inp) (max a b) \<le> int (length (buffer inp))"
  shows "delete_region cls inp a b =
           Some (inp\<lparr>highlight := False, mark := 0, point := min a b,
                     buffer := take (nat (str_offset_to_pos cls (buffer inp) (min a b))) (buffer inp)
                               @ drop (nat (str_offset_to_pos cls (buffer inp) (max a b))) (buffer inp),
                     charpoint := 0, need_push := True\<rparr>)"
  using assms by (simp add: delete_region_def input_mark_cmd_def input_set_markers_def Let_def)

lemma delete_region_Some:
  assumes "delete_region cls inp a b = Some inp1"
  shows "\<not> highlight inp1 \<and> charpoint inp1 = 0 \<and> point inp1 = min a b
       \<and> current_max_size inp1 = current_max_size inp \<and> cols inp1 = cols inp
       \<and> charbuf inp1 = charbuf inp
       \<and> 0 \<le> str_offset_to_pos cls (buffer inp) (min a b)
       \<and> str_offset_to_pos cls (buffer inp) (min a b) \<le> str_offset_to_pos cls (buffer inp) (max a b)
       \<and> str_offset_to_pos cls (buffer inp) (max a b) \<le> int (length (buffer inp))
       \<and> buffer inp1 = take (nat (str_offset_to_pos cls (buffer inp) (min a b))) (buffer inp)
                        @ drop (nat (str_offset_to_pos cls (buffer inp) (max a b))) (buffer inp)"
  using assms
  by (auto simp add: delete_region_def input_mark_cmd_def input_set_markers_def Let_def split: if_splits)

text \<open>
  In the single-byte encoding every pair of offsets between 0 and the length of the
  text is a pair of valid positions.
\<close>

lemma delete_region_single_byte:
  assumes "0 \<le> a" and "a \<le> int (length (buffer inp))" and "0 \<le> b" and "b \<le> int (length (buffer inp))"
  shows "delete_region str_8bit inp a b =
           Some (inp\<lparr>highlight := False, mark := 0, point := min a b,
                     buffer := take (nat (min a b)) (buffer inp) @ drop (nat (max a b)) (buffer inp),
                     charpoint := 0, need_push := True\<rparr>)"
  using assms delete_region_eq [of str_8bit inp a b]
  by (simp add: str_simps str_8bit_def)


text \<open>
  Claim C4. For character offsets \<open>a\<close> and \<open>b\<close> that are valid positions of the buffer
  (the byte positions of the smaller and of the larger one lie in this order inside
  the string), \<open>delete_region\<close> removes exactly the bytes from the byte position of
  \<open>min a b\<close> up to, but not including, the byte position of \<open>max a b\<close>, that is the
  characters of the half-open range; it switches the selection off, puts the cursor
  at \<open>min a b\<close>, and changes nothing else but the mark (set to 0), the assembler (reset)
  and \<open>need_push\<close> (set).
\<close>

theorem delete_region_removes_range:
  assumes "0 \<le> str_offset_to_pos cls (buffer inp) (min a b)"
    and "str_offset_to_pos cls (buffer inp) (min a b) \<le> str_offset_to_pos cls (buffer inp) (max a b)"
    and "str_offset_to_pos cls (buffer inp) (max a b) \<le> int (length (buffer inp))"
  shows "delete_region cls inp a b =
           Some (inp\<lparr>highlight := False, mark := 0, point := min a b,
                     buffer := take (nat (str_offset_to_pos cls (buffer inp) (min a b))) (buffer inp)
                               @ drop (nat (str_offset_to_pos cls (buffer inp) (max a b))) (buffer inp),
                     charpoint := 0, need_push := True\<rparr>)"
  using assms by (rule delete_region_eq)

text \<open>
  The example of the claim: on \<open>abcdef\<close> with the mark at 2 and the cursor at 5 the
  marks evaluate to (2, 5), and deleting that region leaves \<open>abf\<close> with the cursor at 2.
\<close>

theorem delete_region_removes_range_witness:
  "input_eval_marks example_input = (True, 2, 5)
   \<and> delete_region str_8bit example_input 2 5
       = Some (example_input\<lparr>highlight := False, mark := 0, point := 2, buffer := ''abf'',
                              need_push := True\<rparr>)"
  using delete_region_removes_range [of str_8bit example_input 2 5]
  by (simp add: example_input_def input_eval_marks_def str_simps str_8bit_def)

section \<open>The loop of \<open>move_buffer_backward\<close>\<close>

text \<open>
  Started at the byte position \<open>pos\<close> on a string without NUL, with \<open>len\<close> positive and
  \<open>pos + len\<close> inside the string, the loop ends and leaves the string without the \<open>len\<close>
  bytes from \<open>pos\<close> on. So \<open>move_buffer_backward\<close> removes the bytes between the byte
  positions of \<open>start\<close> and \<open>x_end\<close>.
\<close>

lemma length_shifted:
  "pos \<le> i \<Longrightarrow> i + len \<le> length b \<Longrightarrow> length (shifted b pos len i) = length b"
  by (simp add: shifted_def)

lemma nth_shifted:
  assumes "pos \<le> i" and "i + len \<le> length b" and "j < length b"
  shows "shifted b pos len i ! j = (if j < pos then b ! j else if j < i then b ! (j + len) else b ! j)"
proof -
  have l1: "length (take pos b) = pos" using assms by simp
  have l2: "length (take (i - pos) (drop (pos + len) b)) = i - pos" using assms by simp
  show ?thesis
  proof (cases "j < pos")
    case True
    then show ?thesis using assms by (simp add: shifted_def nth_append)
  next
    case False
    note np = this
    show ?thesis
    proof (cases "j < i")
      case True
      with np have lt: "j - pos < i - pos" by arith
      with np assms have "shifted b pos len i ! j = take (i - pos) (drop (pos + len) b) ! (j - pos)"
        by (simp add: shifted_def nth_append)
      also have "\<dots> = b ! (pos + len + (j - pos))"
        using lt assms by simp
      also have "pos + len + (j - pos) = j + len" using np by simp
      finally show ?thesis using True np by simp
    next
      case False
      with np assms have ge: "\<not> j - pos < i - pos" by arith
      with np assms have "shifted b pos len i ! j = drop i b ! (j - pos - (i - pos))"
        by (simp add: shifted_def nth_append)
      also have "\<dots> = b ! (i + (j - pos - (i - pos)))"
        using assms by simp
      also have "i + (j - pos - (i - pos)) = j" using False np assms by simp
      finally show ?thesis using False np by simp
    qed
  qed
qed

lemma nth_shifted_ge:
  "pos \<le> i \<Longrightarrow> i + len \<le> length b \<Longrightarrow> i \<le> j \<Longrightarrow> j < length b \<Longrightarrow> shifted b pos len i ! j = b ! j"
  by (simp add: nth_shifted)

lemma shifted_step:
  assumes "pos \<le> i" and "i + len < length b"
  shows "(shifted b pos len i)[i := b ! (i + len)] = shifted b pos len (Suc i)"
proof (rule nth_equalityI)
  show "length ((shifted b pos len i)[i := b ! (i + len)]) = length (shifted b pos len (Suc i))"
    using assms by (simp add: length_shifted)
next
  fix j assume "j < length ((shifted b pos len i)[i := b ! (i + len)])"
  then have j: "j < length b" using assms by (simp add: length_shifted)
  show "(shifted b pos len i)[i := b ! (i + len)] ! j = shifted b pos len (Suc i) ! j"
    using assms j by (simp add: nth_list_update length_shifted nth_shifted)
qed

lemma mbb_loop_shifted:
  assumes "NUL \<notin> set buf" and "0 < len" and "pos \<le> i" and "i + len \<le> length buf + 1"
  shows "mbb_loop (shifted (buf @ [NUL]) pos len i) (int len) (int i)
           = Some (shifted (buf @ [NUL]) pos len (length buf + 1 - len))"
  using assms
proof (induction "length buf + 1 - len - i" arbitrary: i)
  case 0
  then have i: "i = length buf + 1 - len" by simp
  then have "shifted (buf @ [NUL]) pos len i ! (i + len - 1) = NUL"
    using 0 nth_shifted_ge [of pos i len "buf @ [NUL]" "i + len - 1"] by (simp add: nth_append)
  then show ?case
    using 0 i by (subst mbb_loop.simps) (simp add: length_shifted nat_add_distrib nat_diff_distrib)
next
  case (Suc n)
  then have i: "i + len < length buf + 1" by simp
  with Suc.prems have lt: "i + len - 1 < length buf" and ge: "i \<le> i + len - 1" by arith+
  then have "shifted (buf @ [NUL]) pos len i ! (i + len - 1) = buf ! (i + len - 1)"
    using Suc.prems nth_shifted_ge [of pos i len "buf @ [NUL]" "i + len - 1"] by (simp add: nth_append)
  moreover have "buf ! (i + len - 1) \<in> set buf"
    using lt by simp
  ultimately have ne: "shifted (buf @ [NUL]) pos len i ! (i + len - 1) \<noteq> NUL"
    using Suc.prems(1) by metis
  have nx: "shifted (buf @ [NUL]) pos len i ! (i + len) = (buf @ [NUL]) ! (i + len)"
    using Suc.prems i nth_shifted_ge [of pos i len "buf @ [NUL]" "i + len"] by simp
  have st: "(shifted (buf @ [NUL]) pos len i)[i := (buf @ [NUL]) ! (i + len)] = shifted (buf @ [NUL]) pos len (Suc i)"
    using Suc.prems i by (intro shifted_step) simp_all
  have "mbb_loop (shifted (buf @ [NUL]) pos len (Suc i)) (int len) (int (Suc i))
           = Some (shifted (buf @ [NUL]) pos len (length buf + 1 - len))"
    using Suc by (intro Suc.hyps) simp_all
  moreover have "int (Suc i) = int i + 1" by simp
  ultimately have ih: "mbb_loop (shifted (buf @ [NUL]) pos len (Suc i)) (int len) (int i + 1)
           = Some (shifted (buf @ [NUL]) pos len (Suc (length buf) - len))"
    by (simp only: Suc_eq_plus1 [symmetric] add_Suc_right add_0_right)
  have idx: "nat (int i + int len - 1) = i + len - 1" "nat (int i + int len) = i + len"
    using Suc.prems by (simp_all add: nat_add_distrib nat_diff_distrib)
  show ?case
    using Suc.prems i ne
    by (subst mbb_loop.simps) (simp add: length_shifted idx nx st ih)
qed


lemma c_str_append_NUL: "NUL \<notin> set xs \<Longrightarrow> c_str (xs @ NUL # ys) = xs"
  by (induction xs) (auto simp add: c_str_def)

lemma mbb_loop_removes:
  assumes "NUL \<notin> set buf" and "0 < len" and "pos + len \<le> length buf"
  shows "map_option c_str (mbb_loop (buf @ [NUL]) (int len) (int pos))
           = Some (take pos buf @ drop (pos + len) buf)"
proof -
  have "pos \<le> length buf" using assms(3) by simp
  then have start: "shifted (buf @ [NUL]) pos len pos = buf @ [NUL]"
    by (simp add: shifted_def)
  have "shifted (buf @ [NUL]) pos len (length buf + 1 - len)
          = (take pos buf @ drop (pos + len) buf) @ NUL # drop (length buf + 1 - len) (buf @ [NUL])"
    using assms by (simp add: shifted_def)
  moreover have "NUL \<notin> set (take pos buf @ drop (pos + len) buf)"
    using assms(1) by (auto dest: in_set_takeD in_set_dropD)
  ultimately have "c_str (shifted (buf @ [NUL]) pos len (length buf + 1 - len))
                     = take pos buf @ drop (pos + len) buf"
    using c_str_append_NUL [of "take pos buf @ drop (pos + len) buf"] by metis
  moreover have "mbb_loop (shifted (buf @ [NUL]) pos len pos) (int len) (int pos)
                   = Some (shifted (buf @ [NUL]) pos len (length buf + 1 - len))"
    using assms by (intro mbb_loop_shifted) simp_all
  ultimately show ?thesis
    by (simp add: start)
qed

lemma move_buffer_backward_removes:
  assumes "NUL \<notin> set (buffer inp)"
    and "start < str_length cls (buffer inp)" and "x_end \<le> str_length cls (buffer inp) + 1"
    and "0 \<le> str_offset_to_pos cls (buffer inp) start"
    and "str_offset_to_pos cls (buffer inp) start < str_offset_to_pos cls (buffer inp) x_end"
    and "str_offset_to_pos cls (buffer inp) x_end \<le> int (length (buffer inp))"
  shows "move_buffer_backward cls inp start x_end
           = Some (inp\<lparr>buffer := take (nat (str_offset_to_pos cls (buffer inp) start)) (buffer inp)
                                   @ drop (nat (str_offset_to_pos cls (buffer inp) x_end)) (buffer inp)\<rparr>)"
proof -
  let ?p = "str_offset_to_pos cls (buffer inp) start"
  let ?e = "str_offset_to_pos cls (buffer inp) x_end"
  have "map_option c_str (mbb_loop (buffer inp @ [NUL]) (int (nat (?e - ?p))) (int (nat ?p)))
          = Some (take (nat ?p) (buffer inp) @ drop (nat ?p + nat (?e - ?p)) (buffer inp))"
    using assms by (intro mbb_loop_removes) (simp_all add: nat_le_iff)
  moreover have "int (nat (?e - ?p)) = ?e - ?p" and "int (nat ?p) = ?p" and "nat ?p + nat (?e - ?p) = nat ?e"
    using assms by simp_all
  ultimately have "map_option c_str (mbb_loop (buffer inp @ [NUL]) (?e - ?p) ?p)
          = Some (take (nat ?p) (buffer inp) @ drop (nat ?e) (buffer inp))"
    by simp
  then show ?thesis
    using assms(2,3) by (auto simp add: move_buffer_backward_def Let_def)
qed

text \<open>
  In the single-byte encoding \<open>delete_char\<close> removes exactly the byte at the cursor when
  the cursor stands before the end of the text.
\<close>

lemma delete_char_single_byte:
  assumes "NUL \<notin> set (buffer inp)" and "0 \<le> point inp" and "point inp < int (length (buffer inp))"
  shows "delete_char str_8bit inp
           = Some (inp\<lparr>buffer := take (nat (point inp)) (buffer inp) @ drop (nat (point inp) + 1) (buffer inp),
                        charpoint := 0, need_push := True\<rparr>)"
proof -
  have ne: "drop (nat (point inp)) (buffer inp) \<noteq> []"
    using assms by simp
  have "move_buffer_backward str_8bit inp (point inp) (point inp + 1)
          = Some (inp\<lparr>buffer := take (nat (str_offset_to_pos str_8bit (buffer inp) (point inp))) (buffer inp)
                                  @ drop (nat (str_offset_to_pos str_8bit (buffer inp) (point inp + 1))) (buffer inp)\<rparr>)"
    using assms by (intro move_buffer_backward_removes) (simp_all add: str_simps str_8bit_def)
  then have "move_buffer_backward str_8bit inp (point inp) (point inp + 1)
          = Some (inp\<lparr>buffer := take (nat (point inp)) (buffer inp) @ drop (nat (point inp) + 1) (buffer inp)\<rparr>)"
    using assms by (simp add: str_simps str_8bit_def nat_add_distrib)
  then show ?thesis
    using assms ne by (simp add: delete_char_def Let_def str_simps str_8bit_def)
qed

section \<open>The delete command on an untouched widget\<close>

text \<open>
  Claim C10. While the flag \<open>first\<close> is still set, the delete command empties the
  whole buffer and puts the cursor at 0, whatever the buffer holds and wherever the
  cursor is; it does not delete the single character at the cursor.
\<close>

theorem delete_first_clears_buffer:
  "first inp \<Longrightarrow>
     mc_winput_cmd_delete cls inp
       = Some (inp\<lparr>buffer := [], point := 0, first := False, charpoint := 0\<rparr>)"
  by (simp add: mc_winput_cmd_delete_def port_region_marked_for_delete_def)

text \<open>
  On \<open>abcdef\<close> with the cursor at 2 the command leaves the empty buffer, where
  \<open>delete_char\<close> alone would leave \<open>abdef\<close>.
\<close>

theorem delete_first_clears_buffer_witness:
  "first (example_input\<lparr>first := True, highlight := False, point := 2\<rparr>)
   \<and> mc_winput_cmd_delete str_8bit (example_input\<lparr>first := True, highlight := False, point := 2\<rparr>)
       = Some (example_input\<lparr>first := False, highlight := False, point := 0, buffer := []\<rparr>)
   \<and> map_option buffer (delete_char str_8bit (example_input\<lparr>first := True, highlight := False, point := 2\<rparr>))
       = Some ''abdef''"
  using delete_first_clears_buffer [of "example_input\<lparr>first := True, highlight := False, point := 2\<rparr>" str_8bit]
  apply (simp add: example_input_def)
  apply (simp add: delete_char_def move_buffer_backward_def str_simps str_8bit_def c_str_def NUL_def
      mbb_loop.simps)
  done

section \<open>Commands at the ends of the buffer\<close>

text \<open>
  Claim C7, as stated: moving backward at \<open>point = 0\<close> and deleting forward at the end
  of the text leave the editor state unchanged. The code does change the state: both
  reset the assembler, and \<open>delete_char\<close> also sets \<open>need_push\<close>. At the end of \<open>abcdef\<close>,
  with \<open>need_push\<close> clear, \<open>delete_char\<close> returns a state with \<open>need_push\<close> set.
\<close>

theorem boundary_commands_counterexample:
  "point (example_input\<lparr>highlight := False, point := 6\<rparr>)
     = str_length str_8bit (buffer (example_input\<lparr>highlight := False, point := 6\<rparr>))
   \<and> delete_char str_8bit (example_input\<lparr>highlight := False, point := 6\<rparr>)
       = Some (example_input\<lparr>highlight := False, point := 6, need_push := True\<rparr>)
   \<and> delete_char str_8bit (example_input\<lparr>highlight := False, point := 6\<rparr>)
       \<noteq> Some (example_input\<lparr>highlight := False, point := 6\<rparr>)"
  by (simp add: example_input_def delete_char_def move_buffer_backward_def str_simps str_8bit_def)

text \<open>
  Claim C7, amended. At \<open>point = 0\<close> the backward-character command changes nothing but
  the assembler, which it resets. At \<open>point = str_length\<close> (the byte position of the
  cursor lying inside the string) \<open>delete_char\<close> changes nothing but the assembler, which
  it resets, and \<open>need_push\<close>, which it sets: buffer, cursor, mark and selection stay.
\<close>

theorem boundary_commands:
  "(point inp = 0 \<longrightarrow> mc_winput_cmd_backward_char cls inp = Some (inp\<lparr>charpoint := 0\<rparr>))
   \<and> (point inp = str_length cls (buffer inp)
        \<and> 0 \<le> str_offset_to_pos cls (buffer inp) (point inp)
        \<and> str_offset_to_pos cls (buffer inp) (point inp) \<le> int (length (buffer inp))
        \<longrightarrow> delete_char cls inp = Some (inp\<lparr>charpoint := 0, need_push := True\<rparr>))"
  by (auto simp add: mc_winput_cmd_backward_char_def delete_char_def move_buffer_backward_def Let_def)

theorem boundary_commands_witness:
  "point (example_input\<lparr>point := 0\<rparr>) = 0
   \<and> mc_winput_cmd_backward_char str_8bit (example_input\<lparr>point := 0\<rparr>)
       = Some (example_input\<lparr>point := 0\<rparr>)
   \<and> point (example_input\<lparr>point := 6\<rparr>) = str_length str_8bit (buffer (example_input\<lparr>point := 6\<rparr>))
   \<and> delete_char str_8bit (example_input\<lparr>point := 6\<rparr>)
       = Some (example_input\<lparr>point := 6, need_push := True\<rparr>)"
  using boundary_commands [of "example_input\<lparr>point := 0\<rparr>" str_8bit]
    boundary_commands [of "example_input\<lparr>point := 6\<rparr>" str_8bit]
  by (simp add: example_input_def str_simps str_8bit_def)

section \<open>Copy and cut\<close>

text \<open>
  Claim C2, as stated: without an active selection (\<open>highlight\<close> false) the copy command
  places no span of the buffer into the kill ring. The command does not read
  \<open>highlight\<close>; it compares mark and cursor. With \<open>highlight\<close> false, the mark at 0 and the
  cursor at 3 on \<open>abcdef\<close> it stores \<open>abc\<close> in the kill ring.
\<close>

theorem clipboard_copy_counterexample:
  "\<not> highlight (example_input\<lparr>highlight := False, mark := 0, point := 3\<rparr>)
   \<and> map_option (kill_buffer \<circ> snd)
        (mc_winput_cmd_clipboard_copy str_8bit \<lparr>kill_buffer = None, raised = []\<rparr>
           (example_input\<lparr>highlight := False, mark := 0, point := 3\<rparr>))
       = Some (Some ''abc'')"
  by (simp add: example_input_def mc_winput_cmd_clipboard_copy_def mc_event_raise_def str_simps
      str_8bit_def Let_def)

text \<open>
  Claim C2, amended. Whenever the mark equals the cursor, with or without \<open>highlight\<close>,
  the copy command leaves the kill ring and the widget as they are and raises the
  file-level clipboard events; the cut command does the same in its copy phase and then
  deletes the empty region. Whenever mark and cursor differ (and are valid positions),
  the copy command stores the bytes between them in the kill ring, with or without
  \<open>highlight\<close>.
\<close>

theorem clipboard_copy_empty_region:
  "(mark inp = point inp \<longrightarrow>
      mc_winput_cmd_clipboard_copy cls g inp = Some (inp, file_level_copy g))
   \<and> (mark inp = point inp
        \<and> 0 \<le> str_offset_to_pos cls (buffer inp) (point inp)
        \<and> str_offset_to_pos cls (buffer inp) (point inp) \<le> int (length (buffer inp)) \<longrightarrow>
      mc_winput_cmd_clipboard_cut cls g inp
        = Some (inp\<lparr>highlight := False, mark := 0, charpoint := 0, need_push := True\<rparr>,
                file_level_copy g))
   \<and> (mark inp \<noteq> point inp
        \<and> 0 \<le> str_offset_to_pos cls (buffer inp) (min (mark inp) (point inp))
        \<and> str_offset_to_pos cls (buffer inp) (min (mark inp) (point inp))
             \<le> str_offset_to_pos cls (buffer inp) (max (mark inp) (point inp))
        \<and> str_offset_to_pos cls (buffer inp) (max (mark inp) (point inp)) \<le> int (length (buffer inp)) \<longrightarrow>
      map_option (kill_buffer \<circ> snd) (mc_winput_cmd_clipboard_copy cls g inp)
        = Some (Some (take (nat (str_offset_to_pos cls (buffer inp) (max (mark inp) (point inp))
                                 - str_offset_to_pos cls (buffer inp) (min (mark inp) (point inp))))
                        (drop (nat (str_offset_to_pos cls (buffer inp) (min (mark inp) (point inp))))
                           (buffer inp)))))"
proof (intro conjI impI)
  assume "mark inp = point inp"
  then show "mc_winput_cmd_clipboard_copy cls g inp = Some (inp, file_level_copy g)"
    by (simp add: mc_winput_cmd_clipboard_copy_def mc_event_raise_def file_level_copy_def)
next
  assume "mark inp = point inp
        \<and> 0 \<le> str_offset_to_pos cls (buffer inp) (point inp)
        \<and> str_offset_to_pos cls (buffer inp) (point inp) \<le> int (length (buffer inp))"
  then show "mc_winput_cmd_clipboard_cut cls g inp
        = Some (inp\<lparr>highlight := False, mark := 0, charpoint := 0, need_push := True\<rparr>,
                file_level_copy g)"
    by (simp add: mc_winput_cmd_clipboard_cut_def mc_winput_cmd_clipboard_copy_def mc_event_raise_def
        file_level_copy_def mc_winput_cmd_remove_def delete_region_def input_mark_cmd_def
        input_set_markers_def Let_def)
next
  assume a: "mark inp \<noteq> point inp
        \<and> 0 \<le> str_offset_to_pos cls (buffer inp) (min (mark inp) (point inp))
        \<and> str_offset_to_pos cls (buffer inp) (min (mark inp) (point inp))
             \<le> str_offset_to_pos cls (buffer inp) (max (mark inp) (point inp))
        \<and> str_offset_to_pos cls (buffer inp) (max (mark inp) (point inp)) \<le> int (length (buffer inp))"
  then have "max (mark inp) (point inp) \<noteq> min (mark inp) (point inp)"
    by linarith
  with a show "map_option (kill_buffer \<circ> snd) (mc_winput_cmd_clipboard_copy cls g inp)
        = Some (Some (take (nat (str_offset_to_pos cls (buffer inp) (max (mark inp) (point inp))
                                 - str_offset_to_pos cls (buffer inp) (min (mark inp) (point inp))))
                        (drop (nat (str_offset_to_pos cls (buffer inp) (min (mark inp) (point inp))))
                           (buffer inp))))"
    by (simp add: mc_winput_cmd_clipboard_copy_def mc_event_raise_def Let_def)
qed

text \<open>
  With mark and cursor both at 3 and no selection shown, copy and cut raise the two
  file-level events and leave the empty kill ring empty; with the mark at 2 and the
  cursor at 5, copy stores \<open>cde\<close>.
\<close>

theorem clipboard_copy_empty_region_witness:
  "mark (example_input\<lparr>highlight := False, mark := 3, point := 3\<rparr>)
     = point (example_input\<lparr>highlight := False, mark := 3, point := 3\<rparr>)
   \<and> mc_winput_cmd_clipboard_copy str_8bit \<lparr>kill_buffer = None, raised = []\<rparr>
        (example_input\<lparr>highlight := False, mark := 3, point := 3\<rparr>)
       = Some (example_input\<lparr>highlight := False, mark := 3, point := 3\<rparr>,
               \<lparr>kill_buffer = None,
                raised = [(MCEVENT_GROUP_FILEMANAGER, ''panel_save_current_file_to_clip_file'', None),
                          (MCEVENT_GROUP_CORE, ''clipboard_file_to_ext_clip'', None)]\<rparr>)
   \<and> mc_winput_cmd_clipboard_cut str_8bit \<lparr>kill_buffer = None, raised = []\<rparr>
        (example_input\<lparr>highlight := False, mark := 3, point := 3\<rparr>)
       = Some (example_input\<lparr>highlight := False, mark := 0, point := 3, need_push := True\<rparr>,
               \<lparr>kill_buffer = None,
                raised = [(MCEVENT_GROUP_FILEMANAGER, ''panel_save_current_file_to_clip_file'', None),
                          (MCEVENT_GROUP_CORE, ''clipboard_file_to_ext_clip'', None)]\<rparr>)
   \<and> map_option (kill_buffer \<circ> snd)
        (mc_winput_cmd_clipboard_copy str_8bit \<lparr>kill_buffer = None, raised = []\<rparr> example_input)
       = Some (Some ''cde'')"
  using clipboard_copy_empty_region [of "example_input\<lparr>highlight := False, mark := 3, point := 3\<rparr>"
        str_8bit "\<lparr>kill_buffer = None, raised = []\<rparr>"]
    clipboard_copy_empty_region [of example_input str_8bit "\<lparr>kill_buffer = None, raised = []\<rparr>"]
  by (simp add: example_input_def file_level_copy_def str_simps str_8bit_def)

section \<open>The kill ring and the destruction of a widget\<close>

text \<open>
  Claim C3, as stated: destroying one widget leaves the kill ring unchanged, so that a
  yank in another widget still inserts its content. \<open>input_destroy\<close> frees \<open>kill_buffer\<close>
  and sets it to NULL. With \<open>xyz\<close> in the kill ring, a yank into \<open>ab\<close> at cursor 1 gives
  \<open>axyzb\<close>; after another widget has been destroyed the kill ring is empty and the same
  yank leaves \<open>ab\<close>.
\<close>

theorem destroy_kill_buffer_counterexample:
  "input_destroy \<lparr>kill_buffer = Some ''xyz'', raised = []\<rparr> (Some example_input)
     = Some \<lparr>kill_buffer = None, raised = []\<rparr>
   \<and> map_option buffer
        (mc_winput_cmd_yank str_8bit (\<lambda>n. True) \<lparr>kill_buffer = Some ''xyz'', raised = []\<rparr>
           (example_input\<lparr>highlight := False, buffer := ''ab'', mark := 0, point := 1\<rparr>))
       = Some ''axyzb''
   \<and> map_option buffer
        (mc_winput_cmd_yank str_8bit (\<lambda>n. True) \<lparr>kill_buffer = None, raised = []\<rparr>
           (example_input\<lparr>highlight := False, buffer := ''ab'', mark := 0, point := 1\<rparr>))
       = Some ''ab''"
  by code_simp

text \<open>
  Claim C3, amended. Destroying any widget frees the process-wide kill ring:
  \<open>kill_buffer\<close> is NULL afterwards, whatever it held, and a yank in any other widget
  then inserts nothing and leaves that widget as it is.
\<close>

theorem destroy_frees_kill_buffer:
  "input_destroy g (Some w) = Some (g\<lparr>kill_buffer := None\<rparr>)
   \<and> mc_winput_cmd_yank cls alloc (g\<lparr>kill_buffer := None\<rparr>) inp = Some inp"
  by (simp add: input_destroy_def mc_winput_cmd_yank_def)

theorem destroy_frees_kill_buffer_witness:
  "input_destroy \<lparr>kill_buffer = Some ''xyz'', raised = []\<rparr> (Some example_input)
     = Some \<lparr>kill_buffer = None, raised = []\<rparr>
   \<and> mc_winput_cmd_yank str_8bit (\<lambda>n. True) \<lparr>kill_buffer = None, raised = []\<rparr>
        (example_input\<lparr>highlight := False, buffer := ''ab'', mark := 0, point := 1\<rparr>)
       = Some (example_input\<lparr>highlight := False, buffer := ''ab'', mark := 0, point := 1\<rparr>)"
  using destroy_frees_kill_buffer [of "\<lparr>kill_buffer = Some ''xyz'', raised = []\<rparr>" example_input
        str_8bit "\<lambda>n. True" "example_input\<lparr>highlight := False, buffer := ''ab'', mark := 0, point := 1\<rparr>"]
  by simp

section \<open>Pushing a text to the history\<close>

subsection \<open>The string functions\<close>

lemma strchr_None_iff: "strchr s c = None \<longleftrightarrow> c \<notin> set s"
  by (induction s) auto














subsection \<open>The password rule\<close>





subsection \<open>Duplicates\<close>




section \<open>The shown columns\<close>

lemma c_div_3: "0 \<le> a \<Longrightarrow> c_div a 3 = a div 3"
  by (simp add: c_div_def)


text \<open>
  Claim C9. The first shown column stays non-negative through every call of
  \<open>input_update\<close>. When \<open>input_update\<close> redraws (updates are not disabled and the owner
  is active) a widget at least one column wide whose cursor column \<open>pw\<close> is not
  negative, then afterwards \<open>pw\<close> lies in the window that starts at the first shown
  column and is as wide as the widget less the history button. Whenever a redraw finds
  \<open>pw\<close> outside the old window, the first shown column becomes \<open>pw\<close> less a third of
  the width, or 0 if that is negative.
\<close>

theorem input_update_cursor_visible:
  "(0 \<le> term_first_shown inp \<longrightarrow> 0 \<le> term_first_shown (input_update cls inp clear_first))
   \<and> (disable_update inp = 0 \<and> owner inp = Some DLG_ACTIVE \<and> 1 \<le> cols inp
        \<and> 0 \<le> str_term_width2 cls (buffer inp) (point inp) \<longrightarrow>
        term_first_shown (input_update cls inp clear_first) \<le> str_term_width2 cls (buffer inp) (point inp)
        \<and> str_term_width2 cls (buffer inp) (point inp)
            < term_first_shown (input_update cls inp clear_first) + cols inp
              - (if should_show_history_button inp then HISTORY_BUTTON_WIDTH else 0))
   \<and> (disable_update inp = 0 \<and> owner inp = Some DLG_ACTIVE
        \<and> (str_term_width2 cls (buffer inp) (point inp) < term_first_shown inp
            \<or> term_first_shown inp + cols inp - (if should_show_history_button inp then HISTORY_BUTTON_WIDTH else 0)
                 \<le> str_term_width2 cls (buffer inp) (point inp)) \<longrightarrow>
        term_first_shown (input_update cls inp clear_first)
          = max 0 (str_term_width2 cls (buffer inp) (point inp) - c_div (cols inp) 3))"
proof (intro conjI impI)
  assume "0 \<le> term_first_shown inp"
  then show "0 \<le> term_first_shown (input_update cls inp clear_first)"
    by (simp add: input_update_def Let_def)
next
  assume a: "disable_update inp = 0 \<and> owner inp = Some DLG_ACTIVE \<and> 1 \<le> cols inp
        \<and> 0 \<le> str_term_width2 cls (buffer inp) (point inp)"
  then have hh: "cols inp div 3 + (if should_show_history_button inp then HISTORY_BUTTON_WIDTH else 0) < cols inp"
    by (auto simp add: should_show_history_button_def HISTORY_BUTTON_WIDTH_def)
  have cd: "c_div (cols inp) 3 = cols inp div 3"
    using a by (simp add: c_div_3)
  show "term_first_shown (input_update cls inp clear_first) \<le> str_term_width2 cls (buffer inp) (point inp)"
    using a hh by (auto simp add: input_update_def Let_def cd)
  show "str_term_width2 cls (buffer inp) (point inp)
            < term_first_shown (input_update cls inp clear_first) + cols inp
              - (if should_show_history_button inp then HISTORY_BUTTON_WIDTH else 0)"
    using a hh by (auto simp add: input_update_def Let_def cd)
next
  assume "disable_update inp = 0 \<and> owner inp = Some DLG_ACTIVE
        \<and> (str_term_width2 cls (buffer inp) (point inp) < term_first_shown inp
            \<or> term_first_shown inp + cols inp - (if should_show_history_button inp then HISTORY_BUTTON_WIDTH else 0)
                 \<le> str_term_width2 cls (buffer inp) (point inp))"
  then show "term_first_shown (input_update cls inp clear_first)
          = max 0 (str_term_width2 cls (buffer inp) (point inp) - c_div (cols inp) 3)"
    by (auto simp add: input_update_def Let_def)
qed

text \<open>
  Ten columns, 26 characters, the cursor at 20, the window at 0: the redraw moves the
  window to column 17.
\<close>

theorem input_update_cursor_visible_witness:
  "0 \<le> term_first_shown (example_input\<lparr>buffer := ''abcdefghijklmnopqrstuvwxyz'', point := 20\<rparr>)
   \<and> disable_update (example_input\<lparr>buffer := ''abcdefghijklmnopqrstuvwxyz'', point := 20\<rparr>) = 0
   \<and> owner (example_input\<lparr>buffer := ''abcdefghijklmnopqrstuvwxyz'', point := 20\<rparr>) = Some DLG_ACTIVE
   \<and> 1 \<le> cols (example_input\<lparr>buffer := ''abcdefghijklmnopqrstuvwxyz'', point := 20\<rparr>)
   \<and> str_term_width2 str_8bit ''abcdefghijklmnopqrstuvwxyz'' 20 = 20
   \<and> term_first_shown
        (input_update str_8bit (example_input\<lparr>buffer := ''abcdefghijklmnopqrstuvwxyz'', point := 20\<rparr>) True)
       = 17"
  using input_update_cursor_visible
    [of "example_input\<lparr>buffer := ''abcdefghijklmnopqrstuvwxyz'', point := 20\<rparr>" str_8bit True]
  by (simp add: example_input_def should_show_history_button_def str_simps str_8bit_def c_div_def)

section \<open>Inserting a character: the selection, the assembler and the buffer's size\<close>

subsection \<open>The three ways through \<open>insert_char\<close>\<close>

lemma input_delete_selection_highlight:
  "highlight inp \<Longrightarrow> input_delete_selection cls inp = delete_region cls inp (min (mark inp) (point inp)) (max (mark inp) (point inp))"
  by (simp add: input_delete_selection_def input_eval_marks_def)

lemma insert_char_after_selection:
  assumes "highlight inp" and "input_delete_selection cls inp = Some inp1"
  shows "insert_char cls alloc inp c = insert_char cls alloc inp1 c"
proof -
  have "\<not> highlight inp1"
    using assms delete_region_Some [of cls inp _ _ inp1]
    by (simp add: input_delete_selection_highlight)
  then show ?thesis
    using assms
    by (simp add: insert_char_def [of cls alloc inp] insert_char_def [of cls alloc inp1]
        input_delete_selection_def input_eval_marks_def)
qed

lemma insert_char_rejected:
  assumes "\<not> highlight inp" and "c \<noteq> -1" and "charpoint inp < MB_LEN_MAX"
    and "str_is_valid_char cls ((charbuf inp)[charpoint inp := char_of c]) (charpoint inp + 1) < 0"
  shows "insert_char cls alloc inp c
           = Some (MSG_HANDLED,
                   inp\<lparr>charbuf := (charbuf inp)[charpoint inp := char_of c],
                        charpoint :=
                          (if str_is_valid_char cls ((charbuf inp)[charpoint inp := char_of c]) (charpoint inp + 1) = -2
                           then charpoint inp + 1 else 0)\<rparr>)"
  using assms by (simp add: insert_char_def Let_def)

lemma insert_char_dropped:
  assumes "\<not> highlight inp" and "c \<noteq> -1" and "charpoint inp < MB_LEN_MAX"
    and "0 \<le> str_is_valid_char cls ((charbuf inp)[charpoint inp := char_of c]) (charpoint inp + 1)"
    and "current_max_size inp \<le> length (buffer inp) + (charpoint inp + 1)"
    and "\<not> alloc (new_length (inp\<lparr>charpoint := charpoint inp + 1\<rparr>))"
  shows "insert_char cls alloc inp c
           = Some (MSG_HANDLED,
                   inp\<lparr>charbuf := (charbuf inp)[charpoint inp := char_of c],
                        charpoint := 0, need_push := True\<rparr>)"
  using assms by (simp add: insert_char_def Let_def new_length_def)

lemma c_str_no_NUL: "NUL \<notin> set bs \<Longrightarrow> c_str bs = bs"
  by (auto simp add: c_str_def)

lemma insert_char_inserted:
  assumes "\<not> highlight inp" and "c \<noteq> -1" and "charpoint inp < MB_LEN_MAX"
    and "0 \<le> str_is_valid_char cls ((charbuf inp)[charpoint inp := char_of c]) (charpoint inp + 1)"
    and "length (buffer inp) < current_max_size inp"
    and "0 \<le> cols inp"
    and "int (current_max_size inp) + cols inp + int MB_LEN_MAX < 2 ^ 64"
    and "current_max_size inp \<le> length (buffer inp) + charpoint inp + 2
           \<longrightarrow> alloc (current_max_size inp + nat (cols inp) + charpoint inp + 1)"
    and "0 \<le> str_offset_to_pos cls (buffer inp) (point inp)"
    and "str_offset_to_pos cls (buffer inp) (point inp) \<le> int (length (buffer inp))"
    and "length (charbuf inp) = MB_LEN_MAX"
    and "NUL \<notin> set (buffer inp)" and "NUL \<notin> set (take (charpoint inp) (charbuf inp))" and "char_of c \<noteq> NUL"
  shows "insert_char cls alloc inp c
           = Some (MSG_HANDLED,
                   inp\<lparr>charbuf := (charbuf inp)[charpoint inp := char_of c],
                        need_push := True,
                        current_max_size :=
                          (if current_max_size inp \<le> length (buffer inp) + charpoint inp + 2
                           then current_max_size inp + nat (cols inp) + charpoint inp + 1
                           else current_max_size inp),
                        buffer := take (nat (str_offset_to_pos cls (buffer inp) (point inp))) (buffer inp)
                                  @ (take (charpoint inp) (charbuf inp) @ [char_of c])
                                  @ drop (nat (str_offset_to_pos cls (buffer inp) (point inp))) (buffer inp),
                        point := point inp + 1,
                        charpoint := 0\<rparr>)"
proof -
  let ?cp = "charpoint inp"
  let ?cb = "(charbuf inp)[?cp := char_of c]"
  let ?ip = "nat (str_offset_to_pos cls (buffer inp) (point inp))"
  have nl: "new_length w = Suc (current_max_size inp + nat (cols inp) + ?cp)"
    if "current_max_size w = current_max_size inp" and "cols w = cols inp" and "charpoint w = Suc ?cp" for w
  proof -
    have "int (current_max_size inp) + cols inp + int (Suc ?cp) < 2 ^ 64"
      using assms(3,7) by simp
    moreover have "0 \<le> int (current_max_size inp) + cols inp + int (Suc ?cp)"
      using assms(6) by simp
    ultimately have "(int (current_max_size inp) + cols inp + int (Suc ?cp)) mod 2 ^ 64
                       = int (current_max_size inp) + cols inp + int (Suc ?cp)"
      by simp
    then show ?thesis
      using assms(6) that by (simp add: new_length_def nat_add_distrib)
  qed
  have pend: "take (Suc ?cp) ?cb = take ?cp (charbuf inp) @ [char_of c]"
    using assms(3,11) by (simp add: take_Suc_conv_app_nth)
  have "NUL \<notin> set (take ?ip (buffer inp) @ (take ?cp (charbuf inp) @ [char_of c]) @ drop ?ip (buffer inp))"
    using assms(12,13,14) by (auto dest: in_set_takeD in_set_dropD)
  then have cs: "c_str (take ?ip (buffer inp) @ take ?cp (charbuf inp) @ char_of c # drop ?ip (buffer inp))
                   = take ?ip (buffer inp) @ take ?cp (charbuf inp) @ char_of c # drop ?ip (buffer inp)"
    using c_str_no_NUL by fastforce
  show ?thesis
  proof (cases "current_max_size inp \<le> length (buffer inp) + ?cp + 2")
    case True
    with assms(8) have "alloc (current_max_size inp + nat (cols inp) + ?cp + 1)" by simp
    with True assms(1-7,9,10) show ?thesis
      by (simp add: insert_char_def Let_def nl pend cs)
  next
    case False
    with assms(1-7,9,10) show ?thesis
      by (simp add: insert_char_def Let_def nl pend cs)
  qed
qed

lemma char_of_120: "char_of (120 :: int) = CHR ''x''"
  by code_simp

lemma char_of_195: "char_of (195 :: int) = CHR 0xC3"
  by code_simp

lemma replicate_16_update: "(replicate 16 x)[0 := y] = y # replicate 15 x"
  by (simp add: numeral_eq_Suc)


subsection \<open>Selection first, then the character\<close>

text \<open>
  Claim C5, as stated in its second half: a byte that leaves the assembler with an
  incomplete multi-byte sequence leaves buffer and cursor unchanged. \<open>insert_char\<close>
  deletes the selection before it looks at the byte. In UTF-8 the byte 0xC3 alone is
  incomplete; inserted into \<open>abcdef\<close> with the selection from 2 to 5 it leaves \<open>abf\<close>
  with the cursor at 2 and one byte in the assembler.
\<close>

theorem insert_char_selection_first_counterexample:
  "highlight example_input
   \<and> buffer example_input = ''abcdef'' \<and> point example_input = 5
   \<and> str_is_valid_char str_utf8 ((charbuf example_input)[0 := char_of (195 :: int)]) 1 = -2
   \<and> map_option (\<lambda>(v, w). (buffer w, point w, charpoint w))
        (insert_char str_utf8 (\<lambda>n. True) example_input 195)
       = Some (''abf'', 2, 1)"
  by code_simp


text \<open>
  Claim C5, amended. With an active selection (of valid positions) \<open>insert_char\<close> first
  deletes the selected range and then goes on in the resulting state, where the cursor
  is at the start of the range and the assembler is empty, as it does without a
  selection. Without a selection: a byte (other than -1, the assembler not full) that
  completes a character free of NUL is inserted, with the bytes assembled before it,
  at the cursor's byte position, and the cursor advances by one character, provided the
  buffer has room or the allocator grants the longer one; a byte that does not complete
  a character leaves buffer and cursor unchanged and only changes the assembler, which
  keeps the byte when the sequence is incomplete (-2) and is reset when it is malformed.
  So with a selection a byte that leaves the sequence incomplete leaves the buffer and
  the cursor as they are after the selection has been deleted.
\<close>

theorem insert_char_selection_first:
  "(highlight inp
    \<and> 0 \<le> str_offset_to_pos cls (buffer inp) (min (mark inp) (point inp))
    \<and> str_offset_to_pos cls (buffer inp) (min (mark inp) (point inp))
         \<le> str_offset_to_pos cls (buffer inp) (max (mark inp) (point inp))
    \<and> str_offset_to_pos cls (buffer inp) (max (mark inp) (point inp)) \<le> int (length (buffer inp)) \<longrightarrow>
      insert_char cls alloc inp c
        = insert_char cls alloc
            (inp\<lparr>highlight := False, mark := 0, point := min (mark inp) (point inp),
                 buffer := take (nat (str_offset_to_pos cls (buffer inp) (min (mark inp) (point inp)))) (buffer inp)
                           @ drop (nat (str_offset_to_pos cls (buffer inp) (max (mark inp) (point inp)))) (buffer inp),
                 charpoint := 0, need_push := True\<rparr>) c)
   \<and> (\<not> highlight inp \<and> c \<noteq> -1 \<and> charpoint inp < MB_LEN_MAX
       \<and> 0 \<le> str_is_valid_char cls ((charbuf inp)[charpoint inp := char_of c]) (charpoint inp + 1)
       \<and> length (buffer inp) < current_max_size inp
       \<and> 0 \<le> cols inp
       \<and> int (current_max_size inp) + cols inp + int MB_LEN_MAX < 2 ^ 64
       \<and> (current_max_size inp \<le> length (buffer inp) + charpoint inp + 2
             \<longrightarrow> alloc (current_max_size inp + nat (cols inp) + charpoint inp + 1))
       \<and> 0 \<le> str_offset_to_pos cls (buffer inp) (point inp)
       \<and> str_offset_to_pos cls (buffer inp) (point inp) \<le> int (length (buffer inp))
       \<and> length (charbuf inp) = MB_LEN_MAX
       \<and> NUL \<notin> set (buffer inp) \<and> NUL \<notin> set (take (charpoint inp) (charbuf inp)) \<and> char_of c \<noteq> NUL \<longrightarrow>
      insert_char cls alloc inp c
        = Some (MSG_HANDLED,
                inp\<lparr>charbuf := (charbuf inp)[charpoint inp := char_of c],
                     need_push := True,
                     current_max_size :=
                       (if current_max_size inp \<le> length (buffer inp) + charpoint inp + 2
                        then current_max_size inp + nat (cols inp) + charpoint inp + 1
                        else current_max_size inp),
                     buffer := take (nat (str_offset_to_pos cls (buffer inp) (point inp))) (buffer inp)
                               @ (take (charpoint inp) (charbuf inp) @ [char_of c])
                               @ drop (nat (str_offset_to_pos cls (buffer inp) (point inp))) (buffer inp),
                     point := point inp + 1,
                     charpoint := 0\<rparr>))
   \<and> (\<not> highlight inp \<and> c \<noteq> -1 \<and> charpoint inp < MB_LEN_MAX
       \<and> str_is_valid_char cls ((charbuf inp)[charpoint inp := char_of c]) (charpoint inp + 1) < 0 \<longrightarrow>
      insert_char cls alloc inp c
        = Some (MSG_HANDLED,
                inp\<lparr>charbuf := (charbuf inp)[charpoint inp := char_of c],
                     charpoint :=
                       (if str_is_valid_char cls ((charbuf inp)[charpoint inp := char_of c]) (charpoint inp + 1) = -2
                        then charpoint inp + 1 else 0)\<rparr>))"
proof (intro conjI impI)
  assume a: "highlight inp
    \<and> 0 \<le> str_offset_to_pos cls (buffer inp) (min (mark inp) (point inp))
    \<and> str_offset_to_pos cls (buffer inp) (min (mark inp) (point inp))
         \<le> str_offset_to_pos cls (buffer inp) (max (mark inp) (point inp))
    \<and> str_offset_to_pos cls (buffer inp) (max (mark inp) (point inp)) \<le> int (length (buffer inp))"
  then have "input_delete_selection cls inp
      = Some (inp\<lparr>highlight := False, mark := 0, point := min (mark inp) (point inp),
                 buffer := take (nat (str_offset_to_pos cls (buffer inp) (min (mark inp) (point inp)))) (buffer inp)
                           @ drop (nat (str_offset_to_pos cls (buffer inp) (max (mark inp) (point inp)))) (buffer inp),
                 charpoint := 0, need_push := True\<rparr>)"
    using delete_region_eq [of cls inp "min (mark inp) (point inp)" "max (mark inp) (point inp)"]
    by (simp add: input_delete_selection_highlight)
  with a show "insert_char cls alloc inp c
        = insert_char cls alloc
            (inp\<lparr>highlight := False, mark := 0, point := min (mark inp) (point inp),
                 buffer := take (nat (str_offset_to_pos cls (buffer inp) (min (mark inp) (point inp)))) (buffer inp)
                           @ drop (nat (str_offset_to_pos cls (buffer inp) (max (mark inp) (point inp)))) (buffer inp),
                 charpoint := 0, need_push := True\<rparr>) c"
    by (blast intro: insert_char_after_selection)
next
  assume "\<not> highlight inp \<and> c \<noteq> -1 \<and> charpoint inp < MB_LEN_MAX
       \<and> 0 \<le> str_is_valid_char cls ((charbuf inp)[charpoint inp := char_of c]) (charpoint inp + 1)
       \<and> length (buffer inp) < current_max_size inp
       \<and> 0 \<le> cols inp
       \<and> int (current_max_size inp) + cols inp + int MB_LEN_MAX < 2 ^ 64
       \<and> (current_max_size inp \<le> length (buffer inp) + charpoint inp + 2
             \<longrightarrow> alloc (current_max_size inp + nat (cols inp) + charpoint inp + 1))
       \<and> 0 \<le> str_offset_to_pos cls (buffer inp) (point inp)
       \<and> str_offset_to_pos cls (buffer inp) (point inp) \<le> int (length (buffer inp))
       \<and> length (charbuf inp) = MB_LEN_MAX
       \<and> NUL \<notin> set (buffer inp) \<and> NUL \<notin> set (take (charpoint inp) (charbuf inp)) \<and> char_of c \<noteq> NUL"
  then show "insert_char cls alloc inp c
        = Some (MSG_HANDLED,
                inp\<lparr>charbuf := (charbuf inp)[charpoint inp := char_of c],
                     need_push := True,
                     current_max_size :=
                       (if current_max_size inp \<le> length (buffer inp) + charpoint inp + 2
                        then current_max_size inp + nat (cols inp) + charpoint inp + 1
                        else current_max_size inp),
                     buffer := take (nat (str_offset_to_pos cls (buffer inp) (point inp))) (buffer inp)
                               @ (take (charpoint inp) (charbuf inp) @ [char_of c])
                               @ drop (nat (str_offset_to_pos cls (buffer inp) (point inp))) (buffer inp),
                     point := point inp + 1,
                     charpoint := 0\<rparr>)"
    by (intro insert_char_inserted) blast+
next
  assume "\<not> highlight inp \<and> c \<noteq> -1 \<and> charpoint inp < MB_LEN_MAX
       \<and> str_is_valid_char cls ((charbuf inp)[charpoint inp := char_of c]) (charpoint inp + 1) < 0"
  then show "insert_char cls alloc inp c
        = Some (MSG_HANDLED,
                inp\<lparr>charbuf := (charbuf inp)[charpoint inp := char_of c],
                     charpoint :=
                       (if str_is_valid_char cls ((charbuf inp)[charpoint inp := char_of c]) (charpoint inp + 1) = -2
                        then charpoint inp + 1 else 0)\<rparr>)"
    by (intro insert_char_rejected) blast+
qed


text \<open>
  On \<open>abcdef\<close> with the selection from 2 to 5, the byte \<open>x\<close> in the single-byte encoding:
  the insert is the insert into \<open>abf\<close> at 2 and leaves \<open>abxf\<close> with the cursor at 3.
  Without selection, the byte 0xC3 in UTF-8 stays in the assembler and the buffer is
  as before.
\<close>

theorem insert_char_selection_first_witness:
  "highlight example_input
   \<and> insert_char str_8bit (\<lambda>n. True) example_input 120
       = insert_char str_8bit (\<lambda>n. True)
           (example_input\<lparr>highlight := False, mark := 0, point := 2, buffer := ''abf'', need_push := True\<rparr>) 120
   \<and> insert_char str_8bit (\<lambda>n. True)
        (example_input\<lparr>highlight := False, mark := 0, point := 2, buffer := ''abf'', need_push := True\<rparr>) 120
       = Some (MSG_HANDLED,
               example_input\<lparr>highlight := False, mark := 0, point := 3, buffer := ''abxf'', need_push := True,
                              charbuf := CHR ''x'' # replicate 15 NUL\<rparr>)
   \<and> str_is_valid_char str_utf8 ((charbuf example_input)[0 := char_of (195 :: int)]) 1 = -2
   \<and> insert_char str_utf8 (\<lambda>n. True) (example_input\<lparr>highlight := False\<rparr>) 195
       = Some (MSG_HANDLED,
               example_input\<lparr>highlight := False, charbuf := CHR 0xC3 # replicate 15 NUL, charpoint := 1\<rparr>)"
  using insert_char_selection_first [of example_input str_8bit "\<lambda>n. True" 120]
    insert_char_selection_first
      [of "example_input\<lparr>highlight := False, mark := 0, point := 2, buffer := ''abf'', need_push := True\<rparr>"
        str_8bit "\<lambda>n. True" 120]
    insert_char_selection_first [of "example_input\<lparr>highlight := False\<rparr>" str_utf8 "\<lambda>n. True" 195]
  by (simp add: example_input_def str_simps str_8bit_def str_utf8_def utf8_is_valid_char_def utf8_skip_def
      utf8_cont_def MB_LEN_MAX_def NUL_def char_of_120 char_of_195 replicate_16_update)


subsection \<open>When the buffer cannot grow\<close>

text \<open>
  Claim C6. Let the capacity hold the string and its terminator, and let \<open>inp1\<close> be
  the state after the selection, if any, has been deleted. If the byte completes a
  character that does not fit (string, character and terminator need more than
  \<open>current_max_size\<close> bytes), so that the buffer has to grow, and the allocator refuses
  the longer buffer, then \<open>insert_char\<close> returns normally, the character is dropped,
  and the buffer's content and size are what they were before the call: only the
  assembler is reset and \<open>need_push\<close> set (and an empty selection switched off). The
  code asks for a longer buffer already when the character would fit exactly; then a
  refusal does no harm and the character is inserted, which is not the case the claim
  is about.
\<close>

theorem insert_char_growth_failure:
  assumes "length (buffer inp) < current_max_size inp"
    and "(if highlight inp then input_delete_selection cls inp else Some inp) = Some inp1"
    and "c \<noteq> -1" and "charpoint inp1 < MB_LEN_MAX"
    and "0 \<le> str_is_valid_char cls ((charbuf inp1)[charpoint inp1 := char_of c]) (charpoint inp1 + 1)"
    and "current_max_size inp1 \<le> length (buffer inp1) + (charpoint inp1 + 1)"
    and "\<not> alloc (new_length (inp1\<lparr>charpoint := charpoint inp1 + 1\<rparr>))"
  shows "insert_char cls alloc inp c
           = Some (MSG_HANDLED,
                   inp1\<lparr>charbuf := (charbuf inp1)[charpoint inp1 := char_of c],
                         charpoint := 0, need_push := True\<rparr>)
       \<and> buffer inp1 = buffer inp
       \<and> current_max_size inp1 = current_max_size inp"
proof (cases "highlight inp")
  case False
  with assms(2) have "inp1 = inp" by simp
  with False assms show ?thesis
    using insert_char_dropped [of inp c cls alloc] by simp
next
  case True
  with assms(2) have sel: "input_delete_selection cls inp = Some inp1" by simp
  then have dr: "delete_region cls inp (min (mark inp) (point inp)) (max (mark inp) (point inp)) = Some inp1"
    using True by (simp add: input_delete_selection_highlight)
  let ?f = "str_offset_to_pos cls (buffer inp) (min (mark inp) (point inp))"
  let ?l = "str_offset_to_pos cls (buffer inp) (max (mark inp) (point inp))"
  from delete_region_Some [OF dr]
  have nh: "\<not> highlight inp1" and cp: "charpoint inp1 = 0"
    and cms: "current_max_size inp1 = current_max_size inp"
    and f: "0 \<le> ?f" and fl: "?f \<le> ?l" and l: "?l \<le> int (length (buffer inp))"
    and buf: "buffer inp1 = take (nat ?f) (buffer inp) @ drop (nat ?l) (buffer inp)"
    by simp_all
  have "length (buffer inp1) = nat ?f + (length (buffer inp) - nat ?l)"
    using f fl l by (simp add: buf)
  moreover have "length (buffer inp) \<le> length (buffer inp1)"
    using assms(1,6) cp cms by simp
  ultimately have "nat ?f = nat ?l"
    using f fl l by linarith
  then have same: "buffer inp1 = buffer inp"
    by (simp add: buf)
  have "insert_char cls alloc inp c = insert_char cls alloc inp1 c"
    using True sel by (rule insert_char_after_selection)
  also have "\<dots> = Some (MSG_HANDLED,
                   inp1\<lparr>charbuf := (charbuf inp1)[charpoint inp1 := char_of c],
                         charpoint := 0, need_push := True\<rparr>)"
    using nh assms(3-7) by (rule insert_char_dropped)
  finally show ?thesis
    using same cms by simp
qed

text \<open>
  A buffer of seven bytes holding \<open>abcdef\<close>, an allocator that refuses everything: the
  byte \<open>x\<close> is dropped, without a selection and with an empty one at 5.
\<close>

theorem insert_char_growth_failure_witness:
  "length (buffer (example_input\<lparr>highlight := False, current_max_size := 7\<rparr>))
     < current_max_size (example_input\<lparr>highlight := False, current_max_size := 7\<rparr>)
   \<and> current_max_size (example_input\<lparr>highlight := False, current_max_size := 7\<rparr>)
       \<le> length (buffer (example_input\<lparr>highlight := False, current_max_size := 7\<rparr>)) + 1
   \<and> insert_char str_8bit (\<lambda>n. False) (example_input\<lparr>highlight := False, current_max_size := 7\<rparr>) 120
       = Some (MSG_HANDLED,
               example_input\<lparr>highlight := False, current_max_size := 7, need_push := True,
                              charbuf := CHR ''x'' # replicate 15 NUL\<rparr>)
   \<and> insert_char str_8bit (\<lambda>n. False) (example_input\<lparr>mark := 5, current_max_size := 7\<rparr>) 120
       = Some (MSG_HANDLED,
               example_input\<lparr>highlight := False, mark := 0, current_max_size := 7, need_push := True,
                              charbuf := CHR ''x'' # replicate 15 NUL\<rparr>)"
  using insert_char_growth_failure
      [of "example_input\<lparr>highlight := False, current_max_size := 7\<rparr>" str_8bit
        "example_input\<lparr>highlight := False, current_max_size := 7\<rparr>" 120 "\<lambda>n. False"]
    insert_char_growth_failure
      [of "example_input\<lparr>mark := 5, current_max_size := 7\<rparr>" str_8bit
        "example_input\<lparr>highlight := False, mark := 0, current_max_size := 7, need_push := True\<rparr>" 120 "\<lambda>n. False"]
  by (simp add: example_input_def str_simps str_8bit_def MB_LEN_MAX_def NUL_def
      char_of_120 replicate_16_update input_delete_selection_def input_eval_marks_def delete_region_def input_mark_cmd_def
      input_set_markers_def)

text \<open>
  The boundary case: the code asks for a longer buffer as soon as the character and
  the terminator leave no spare byte. When the allocator refuses and the character
  fits exactly, it is inserted into the buffer as it is, which is then full.
\<close>

lemma insert_char_exact_fit:
  assumes "\<not> highlight inp" and "c \<noteq> -1" and "charpoint inp < MB_LEN_MAX"
    and "0 \<le> str_is_valid_char cls ((charbuf inp)[charpoint inp := char_of c]) (charpoint inp + 1)"
    and "current_max_size inp = length (buffer inp) + charpoint inp + 2"
    and "\<not> alloc (new_length (inp\<lparr>charpoint := charpoint inp + 1\<rparr>))"
    and "0 \<le> str_offset_to_pos cls (buffer inp) (point inp)"
    and "str_offset_to_pos cls (buffer inp) (point inp) \<le> int (length (buffer inp))"
  shows "insert_char cls alloc inp c
           = Some (MSG_HANDLED,
                   inp\<lparr>charbuf := (charbuf inp)[charpoint inp := char_of c],
                        need_push := True,
                        buffer := c_str (take (nat (str_offset_to_pos cls (buffer inp) (point inp))) (buffer inp)
                                         @ take (charpoint inp + 1) ((charbuf inp)[charpoint inp := char_of c])
                                         @ drop (nat (str_offset_to_pos cls (buffer inp) (point inp))) (buffer inp)),
                        point := point inp + 1,
                        charpoint := 0\<rparr>)"
  using assms by (simp add: insert_char_def Let_def new_length_def)

end
